theory Spec2Isabelle
  imports Complex_Main
begin

section \<open>The integers of the virtual machine\<close>

text \<open>
  The contract includes \<open>stdlib.fc\<close> and is compiled as FunC for the TON virtual
  machine. An \<open>int\<close> of that machine is a signed integer of 257 bits. An arithmetic
  result outside \<open>[-2^256, 2^256 - 1]\<close> aborts the call, and so does a division by zero;
  \<open>/\<close> is the flooring division. The machine reports both aborts under one exit code;
  the model keeps them apart as \<open>IntegerOverflow\<close> and \<open>DivisionByZero\<close>. An aborted
  call leaves the state as it was.
\<close>

datatype vm_error = IntegerOverflow | DivisionByZero

definition fits :: "int \<Rightarrow> bool" where
  "fits x = (- (2 ^ 256) \<le> x \<and> x < 2 ^ 256)"

definition checked :: "int \<Rightarrow> vm_error + int" where
  "checked x = (if fits x then Inr x else Inl IntegerOverflow)"

definition vm_add :: "int \<Rightarrow> int \<Rightarrow> vm_error + int" where
  "vm_add a b = checked (a + b)"

definition vm_sub :: "int \<Rightarrow> int \<Rightarrow> vm_error + int" where
  "vm_sub a b = checked (a - b)"

definition vm_mul :: "int \<Rightarrow> int \<Rightarrow> vm_error + int" where
  "vm_mul a b = checked (a * b)"

definition vm_div :: "int \<Rightarrow> int \<Rightarrow> vm_error + int" where
  "vm_div a b = (if b = 0 then Inl DivisionByZero else checked (a div b))"

text \<open>Sequencing of steps that may abort: the first abort ends the call.\<close>

definition and_then :: "'e + 'a \<Rightarrow> ('a \<Rightarrow> 'e + 'b) \<Rightarrow> 'e + 'b" where
  "and_then r f = case_sum Inl f r"

text \<open>The largest token amount of the pool documentation, \<open>MAX_COINS = 2^120 - 1\<close>, and
  the amounts in \<open>[0, MAX_COINS]\<close>.\<close>

definition MAX_COINS :: int where
  "MAX_COINS = 2 ^ 120 - 1"

definition in_coins :: "int \<Rightarrow> bool" where
  "in_coins x = (0 \<le> x \<and> x \<le> MAX_COINS)"

section \<open>The pool contract of contracts/pool (the DeFi and DAO smart contract)\<close>

text \<open>
  The contract keeps its pools in the global map \<open>pools\<close>, indexed by the pool id, and
  counts them in \<open>poolCount\<close>. Every addition, subtraction, multiplication and division
  of the source is a step of the machine that may abort, in the order in which the
  source evaluates them.

  Reading a key that a map does not hold gives the zero-initialised value, which is what
  the contract relies on when it increments \<open>liquidityProviders[msg.sender]\<close> of a fresh
  pool, or requires \<open>loan.loanAmount == 0\<close> of a sender without a loan. The globals
  \<open>stakers\<close>, \<open>loans\<close> and \<open>communityDAO\<close> are neither read nor written by the pool
  functions and are left out of the state. The argument \<open>sender\<close> is \<open>msg.sender\<close>.
\<close>

type_synonym address = string

record Pool =
  totalLiquidity :: int
  tokenA :: int
  tokenB :: int
  liquidityProviders :: "address \<rightharpoonup> int"

record contract_state =
  pools :: "int \<rightharpoonup> Pool"
  poolCount :: int

text \<open>A call of \<open>sendToken(recipient, amount)\<close>; the contract leaves its body open, so the
  call itself is what the model records.\<close>

record transfer =
  recipient :: address
  amount :: int

definition zero_Pool :: Pool where
  "zero_Pool = \<lparr>totalLiquidity = 0, tokenA = 0, tokenB = 0, liquidityProviders = Map.empty\<rparr>"

definition read_pool :: "(int \<rightharpoonup> Pool) \<Rightarrow> int \<Rightarrow> Pool" where
  "read_pool m k = (case m k of None \<Rightarrow> zero_Pool | Some p \<Rightarrow> p)"

definition read_balance :: "(address \<rightharpoonup> int) \<Rightarrow> address \<Rightarrow> int" where
  "read_balance m k = (case m k of None \<Rightarrow> 0 | Some v \<Rightarrow> v)"

definition sendToken :: "address \<Rightarrow> int \<Rightarrow> transfer list" where
  "sendToken to_addr amt = [\<lparr>recipient = to_addr, amount = amt\<rparr>]"

definition createPool :: "int \<Rightarrow> int \<Rightarrow> contract_state \<Rightarrow> vm_error + (contract_state \<times> int)" where
  "createPool amountA amountB s =
     and_then (vm_add (poolCount s) 1) (\<lambda>count.
     and_then (vm_add amountA amountB) (\<lambda>total.
       let newPool = \<lparr>totalLiquidity = total, tokenA = amountA, tokenB = amountB,
                      liquidityProviders = Map.empty\<rparr>
       in Inr (s\<lparr>pools := (pools s)(count \<mapsto> newPool), poolCount := count\<rparr>, count)))"

definition addLiquidity ::
  "address \<Rightarrow> int \<Rightarrow> int \<Rightarrow> int \<Rightarrow> contract_state \<Rightarrow> vm_error + contract_state" where
  "addLiquidity sender poolId amountA amountB s =
     (let pool = read_pool (pools s) poolId
      in and_then (vm_add (tokenA pool) amountA) (\<lambda>v.
         let pool = pool\<lparr>tokenA := v\<rparr>
         in and_then (vm_add (tokenB pool) amountB) (\<lambda>v.
         let pool = pool\<lparr>tokenB := v\<rparr>
         in and_then (vm_add amountA amountB) (\<lambda>added.
         and_then (vm_add (totalLiquidity pool) added) (\<lambda>v.
         let pool = pool\<lparr>totalLiquidity := v\<rparr>
         in and_then (vm_add amountA amountB) (\<lambda>added.
         and_then (vm_add (read_balance (liquidityProviders pool) sender) added) (\<lambda>v.
         let pool = pool\<lparr>liquidityProviders := (liquidityProviders pool)(sender \<mapsto> v)\<rparr>
         in Inr (s\<lparr>pools := (pools s)(poolId \<mapsto> pool)\<rparr>))))))))"

definition swapAtoB ::
  "address \<Rightarrow> int \<Rightarrow> int \<Rightarrow> contract_state \<Rightarrow> vm_error + (contract_state \<times> transfer list)" where
  "swapAtoB sender poolId amountA s =
     (let pool = read_pool (pools s) poolId
      in and_then (vm_mul amountA (tokenB pool)) (\<lambda>product.
         and_then (vm_add (tokenA pool) amountA) (\<lambda>divisor.
         and_then (vm_div product divisor) (\<lambda>amountB.
         and_then (vm_add (tokenA pool) amountA) (\<lambda>v.
         let pool = pool\<lparr>tokenA := v\<rparr>
         in and_then (vm_sub (tokenB pool) amountB) (\<lambda>v.
         let pool = pool\<lparr>tokenB := v\<rparr>
         in Inr (s\<lparr>pools := (pools s)(poolId \<mapsto> pool)\<rparr>, sendToken sender amountB)))))))"

text \<open>The state a call leaves behind: the updated state when it returns, the old one when
  it aborts.\<close>

definition state_after :: "contract_state \<Rightarrow> vm_error + (contract_state \<times> transfer list) \<Rightarrow> contract_state" where
  "state_after s r = (case r of Inl e \<Rightarrow> s | Inr (s', out) \<Rightarrow> s')"

text \<open>The transfers a call emits: none when it aborts.\<close>

definition transfers_of :: "vm_error + (contract_state \<times> transfer list) \<Rightarrow> transfer list" where
  "transfers_of r = (case r of Inl e \<Rightarrow> [] | Inr (s', out) \<Rightarrow> out)"

text \<open>The globals as the contract declares them: no pool, \<open>poolCount = 0\<close>.\<close>

definition initial_state :: contract_state where
  "initial_state = \<lparr>pools = Map.empty, poolCount = 0\<rparr>"

text \<open>A state holding the single pool 1 with the given reserves.\<close>

definition one_pool :: "int \<Rightarrow> int \<Rightarrow> contract_state" where
  "one_pool a b =
     \<lparr>pools = Map.empty(1 \<mapsto> \<lparr>totalLiquidity = a + b, tokenA = a, tokenB = b,
                               liquidityProviders = Map.empty\<rparr>),
      poolCount = 1\<rparr>"

text \<open>A pool with the given reserves and no provider entry.\<close>

definition plain_pool :: "int \<Rightarrow> int \<Rightarrow> Pool" where
  "plain_pool a b =
     \<lparr>totalLiquidity = a + b, tokenA = a, tokenB = b, liquidityProviders = Map.empty\<rparr>"

text \<open>A state holding the pools 1 and 2.\<close>

definition two_pools :: "Pool \<Rightarrow> Pool \<Rightarrow> contract_state" where
  "two_pools p q = \<lparr>pools = Map.empty(1 \<mapsto> p, 2 \<mapsto> q), poolCount = 2\<rparr>"

subsection \<open>The fee formula of the specification\<close>

text \<open>
  The fee split of a swap in the words of the specification (its section 4.1, the
  "Fee Calculation Logic" of the README), kept apart from the contract above so that
  the two can be compared: each fee is \<open>ceil(baseOut * rate / FEE_DIVIDER)\<close> with
  \<open>FEE_DIVIDER = 10000\<close>, the referral fee is charged only when \<open>hasRef\<close>, and
  \<open>amountOut = baseOut - providerFee - protocolFee - refFee\<close>.
\<close>

definition FEE_DIVIDER :: int where
  "FEE_DIVIDER = 10000"

definition spec_fee :: "int \<Rightarrow> int \<Rightarrow> int" where
  "spec_fee baseOut rate = - ((- (baseOut * rate)) div FEE_DIVIDER)"

definition spec_amountOut :: "int \<Rightarrow> int \<Rightarrow> int \<Rightarrow> int \<Rightarrow> bool \<Rightarrow> int" where
  "spec_amountOut baseOut lpFeeRate protocolFeeRate refFeeRate hasRef =
     baseOut - spec_fee baseOut lpFeeRate - spec_fee baseOut protocolFeeRate
       - (if hasRef then spec_fee baseOut refFeeRate else 0)"

section \<open>The initial data of the pool wrapper\<close>

text \<open>
  \<open>poolConfigToCell\<close> builds the data cell a pool is deployed with. A cell is modelled by
  the sequence of values stored into it, in the order of the builder calls; a cell takes
  1023 bits and 4 references, and the layout below (514 bits, 4 references) stays
  within that. \<open>storeUint(v, bits)\<close> raises when \<open>v\<close> does not fit into \<open>bits\<close> bits, which
  \<open>min_liquidity\<close>, a \<open>bigint\<close> of the caller, may fail to do.
\<close>

record PoolConfig =
  owner_address :: address
  token_a_address :: address
  token_b_address :: address
  lp_token_address :: address
  min_liquidity :: int

datatype Cell = Cell (slots: "slot list")
  and slot =
      StoredRef Cell
    | StoredUint nat int
    | StoredAddress address
    | StoredDict "(int \<times> Cell) list"

datatype builder_error = UintOutOfRange

type_synonym Builder = "slot list"

definition beginCell :: Builder where
  "beginCell = []"

definition storeRef :: "Cell \<Rightarrow> Builder \<Rightarrow> Builder" where
  "storeRef c b = b @ [StoredRef c]"

definition storeAddress :: "address \<Rightarrow> Builder \<Rightarrow> Builder" where
  "storeAddress a b = b @ [StoredAddress a]"

definition storeUint :: "int \<Rightarrow> nat \<Rightarrow> Builder \<Rightarrow> builder_error + Builder" where
  "storeUint v bits b =
     (if 0 \<le> v \<and> v < 2 ^ bits then Inr (b @ [StoredUint bits v]) else Inl UintOutOfRange)"

definition storeDict :: "(int \<times> Cell) list \<Rightarrow> Builder \<Rightarrow> Builder" where
  "storeDict d b = b @ [StoredDict d]"

definition endCell :: "Builder \<Rightarrow> Cell" where
  "endCell b = Cell b"

definition poolConfigToCell :: "PoolConfig \<Rightarrow> builder_error + Cell" where
  "poolConfigToCell config =
     (let b = storeRef (endCell (storeAddress (owner_address config) beginCell)) beginCell;
          b = storeRef (endCell (storeAddress (token_a_address config) beginCell)) b;
          b = storeRef (endCell (storeAddress (token_b_address config) beginCell)) b
      in and_then (storeUint 0 128 b) (\<lambda>b.
         and_then (storeUint 0 128 b) (\<lambda>b.
         and_then (storeUint 0 128 b) (\<lambda>b.
         and_then (storeUint (min_liquidity config) 128 b) (\<lambda>b.
         and_then (storeUint 0 1 b) (\<lambda>b.
           let b = storeDict [] b;
               b = storeRef (endCell (storeAddress (lp_token_address config) beginCell)) b
           in Inr (endCell b)))))))"

text \<open>
  The unsigned fields of a data cell, in storage order. The wrapper names them, in this
  order, \<open>reserve_a\<close>, \<open>reserve_b\<close>, \<open>total_supply\<close>, \<open>min_liquidity\<close> and \<open>is_locked\<close>.
\<close>

definition uint_fields :: "Cell \<Rightarrow> int list" where
  "uint_fields c =
     concat (map (\<lambda>x. case x of StoredUint w v \<Rightarrow> [v] | _ \<Rightarrow> []) (slots c))"

definition reserve_a :: "Cell \<Rightarrow> int" where
  "reserve_a c = uint_fields c ! 0"

definition reserve_b :: "Cell \<Rightarrow> int" where
  "reserve_b c = uint_fields c ! 1"

definition total_supply :: "Cell \<Rightarrow> int" where
  "total_supply c = uint_fields c ! 2"

definition is_locked :: "Cell \<Rightarrow> int" where
  "is_locked c = uint_fields c ! 4"

datatype pool_status = Active | Locked

definition status :: "Cell \<Rightarrow> pool_status" where
  "status c = (if is_locked c = 0 then Active else Locked)"

definition example_config :: PoolConfig where
  "example_config =
     \<lparr>owner_address = ''owner'', token_a_address = ''token_a'', token_b_address = ''token_b'',
      lp_token_address = ''lp_token'', min_liquidity = 1000\<rparr>"

section \<open>The fee administration of the pool controller\<close>

text \<open>
  Modelled from the spec: the pool state of the pool controller (specification, section 3).
  The contract that handles \<open>set_fees\<close> and \<open>collect_fees\<close> is not among the sources;
  only the encoders \<open>setFees\<close> and \<open>collectFees\<close> of the two messages are. Amounts and
  rates are unsigned integers; a recipient identity is either present or null.
\<close>

record controller_pool =
  reserve0 :: nat
  reserve1 :: nat
  totalSupplyLP :: nat
  collectedFees0_provider :: nat
  collectedFees1_provider :: nat
  collectedFees0_protocol :: nat
  collectedFees1_protocol :: nat
  lpFeeRate :: nat
  protocolFeeRate :: nat
  refFeeRate :: nat
  providerFeeAddress :: "address option"
  protocolFeeAddress :: "address option"
  isLocked :: bool
  authorizedSet :: "address set"

text \<open>
  Modelled from the spec: the error kinds of its section 7. The specification says that
  a locked pool rejects every mutating operation other than the unlock and names no
  error kind for it; \<open>RejectedLocked\<close> stands for that rejection.
\<close>

datatype pool_error =
    NoLiquidity | ZeroOutput | InvalidCaller | InsufficientGas | FeeOutOfRange
  | InvalidToken | LowAmount | LowLiquidity | WrongK | MathError | InvalidRecipient
  | RejectedLocked

definition MAX_FEE :: nat where
  "MAX_FEE = 200"

definition REQUIRED_MIN_COLLECT_FEES :: nat where
  "REQUIRED_MIN_COLLECT_FEES = 1000000"

text \<open>
  Modelled from the spec: the handler of \<open>set_fees\<close> (section 4.4), which is missing from
  the sources. The controller checks the caller and the lock before it delegates; the
  operation then validates that each new rate is in \<open>[0, 200]\<close> (\<open>FeeOutOfRange\<close>) and
  that the new recipient identities are non-null (\<open>InvalidRecipient\<close>), and applies the
  three rates and both addresses together or not at all.
\<close>

definition set_fees ::
  "address \<Rightarrow> nat \<Rightarrow> nat \<Rightarrow> nat \<Rightarrow> address option \<Rightarrow> address option
     \<Rightarrow> controller_pool \<Rightarrow> pool_error + controller_pool" where
  "set_fees caller newLpFee newProtocolFee newRefFee newProviderFeeAddr newProtocolFeeAddr pool =
     (if caller \<notin> authorizedSet pool then Inl InvalidCaller
      else if isLocked pool then Inl RejectedLocked
      else if \<not> (newLpFee \<le> MAX_FEE \<and> newProtocolFee \<le> MAX_FEE \<and> newRefFee \<le> MAX_FEE)
        then Inl FeeOutOfRange
      else if newProviderFeeAddr = None \<or> newProtocolFeeAddr = None then Inl InvalidRecipient
      else Inr (pool\<lparr>lpFeeRate := newLpFee, protocolFeeRate := newProtocolFee,
                     refFeeRate := newRefFee, providerFeeAddress := newProviderFeeAddr,
                     protocolFeeAddress := newProtocolFeeAddr\<rparr>))"

text \<open>
  Modelled from the spec: the two readings of the minimum-collect threshold that the
  specification leaves open (sections 8 and 9): each accumulator on its own, or the
  provider and the protocol accumulator of a token taken together. Collection is a
  silent no-op when both tokens are below the threshold.
\<close>

datatype threshold_policy = PerAccumulator | Combined

definition token_below :: "threshold_policy \<Rightarrow> nat \<Rightarrow> nat \<Rightarrow> bool" where
  "token_below policy provider protocol =
     (case policy of
        PerAccumulator \<Rightarrow>
          provider < REQUIRED_MIN_COLLECT_FEES \<and> protocol < REQUIRED_MIN_COLLECT_FEES
      | Combined \<Rightarrow> provider + protocol < REQUIRED_MIN_COLLECT_FEES)"

definition below_threshold :: "threshold_policy \<Rightarrow> controller_pool \<Rightarrow> bool" where
  "below_threshold policy pool =
     (token_below policy (collectedFees0_provider pool) (collectedFees0_protocol pool)
      \<and> token_below policy (collectedFees1_provider pool) (collectedFees1_protocol pool))"

text \<open>Modelled from the spec: a payout instruction, one per recipient and token (section 4.3).\<close>

record payout =
  payee :: "address option"
  token :: nat
  payout_amount :: nat

text \<open>
  Modelled from the spec: the handler of \<open>collect_fees\<close> (section 4.3), which is missing
  from the sources. Below the threshold it is a no-op and not an error. Otherwise the
  resource check comes before any change (\<open>InsufficientGas\<close>); for each token the
  collector reward is \<open>floor(total * 0.001)\<close> of the provider and protocol fees of that
  token, taken out of the protocol share (\<open>MathError\<close> when the share is smaller than
  the reward); the caller, the provider recipient and the protocol recipient get one
  payout per token, and the accumulators are set to zero.
\<close>

definition collect_fees ::
  "threshold_policy \<Rightarrow> address \<Rightarrow> bool \<Rightarrow> controller_pool
     \<Rightarrow> pool_error + (controller_pool \<times> payout list)" where
  "collect_fees policy caller gas_ok pool =
     (if isLocked pool then Inl RejectedLocked
      else if below_threshold policy pool then Inr (pool, [])
      else if \<not> gas_ok then Inl InsufficientGas
      else
        let reward0 = (collectedFees0_provider pool + collectedFees0_protocol pool) div 1000;
            reward1 = (collectedFees1_provider pool + collectedFees1_protocol pool) div 1000
        in if collectedFees0_protocol pool < reward0 \<or> collectedFees1_protocol pool < reward1
           then Inl MathError
           else Inr (pool\<lparr>collectedFees0_provider := 0, collectedFees1_provider := 0,
                          collectedFees0_protocol := 0, collectedFees1_protocol := 0\<rparr>,
                     [\<lparr>payee = Some caller, token = 0, payout_amount = reward0\<rparr>,
                      \<lparr>payee = providerFeeAddress pool, token = 0,
                        payout_amount = collectedFees0_provider pool\<rparr>,
                      \<lparr>payee = protocolFeeAddress pool, token = 0,
                        payout_amount = collectedFees0_protocol pool - reward0\<rparr>,
                      \<lparr>payee = Some caller, token = 1, payout_amount = reward1\<rparr>,
                      \<lparr>payee = providerFeeAddress pool, token = 1,
                        payout_amount = collectedFees1_provider pool\<rparr>,
                      \<lparr>payee = protocolFeeAddress pool, token = 1,
                        payout_amount = collectedFees1_protocol pool - reward1\<rparr>]))"

text \<open>An unlocked pool with the given token-0 fee accumulators and one authorized caller.\<close>

definition example_pool :: "nat \<Rightarrow> nat \<Rightarrow> controller_pool" where
  "example_pool provider0 protocol0 =
     \<lparr>reserve0 = 1000000, reserve1 = 1000000, totalSupplyLP = 1000000,
      collectedFees0_provider = provider0, collectedFees1_provider = 0,
      collectedFees0_protocol = protocol0, collectedFees1_protocol = 0,
      lpFeeRate = 30, protocolFeeRate = 5, refFeeRate = 0,
      providerFeeAddress = Some ''provider'', protocolFeeAddress = Some ''protocol'',
      isLocked = False, authorizedSet = {''admin''}\<rparr>"

section \<open>Properties of the swap\<close>

lemma fits_zero: "fits 0"
  by (simp add: fits_def)

lemma read_pool_upd_same: "read_pool (m(k \<mapsto> p)) k = p"
  by (simp add: read_pool_def)

lemma read_one_pool:
  "read_pool (pools (one_pool a b)) 1
     = \<lparr>totalLiquidity = a + b, tokenA = a, tokenB = b, liquidityProviders = Map.empty\<rparr>"
  by (simp add: one_pool_def read_pool_def)

lemma swapAtoB_returns:
  assumes "read_pool (pools s) poolId = p"
      and "fits (amountA * tokenB p)"
      and "fits (tokenA p + amountA)"
      and "tokenA p + amountA \<noteq> 0"
      and "fits ((amountA * tokenB p) div (tokenA p + amountA))"
      and "fits (tokenB p - (amountA * tokenB p) div (tokenA p + amountA))"
  shows "swapAtoB sender poolId amountA s =
     Inr (s\<lparr>pools := (pools s)(poolId \<mapsto> p
              \<lparr>tokenA := tokenA p + amountA,
               tokenB := tokenB p - (amountA * tokenB p) div (tokenA p + amountA)\<rparr>)\<rparr>,
          [\<lparr>recipient = sender,
            amount = (amountA * tokenB p) div (tokenA p + amountA)\<rparr>])"
  using assms
  by (simp add: swapAtoB_def vm_mul_def vm_add_def vm_div_def vm_sub_def checked_def
        and_then_def sendToken_def Let_def)

lemma swapAtoB_InrD:
  assumes "swapAtoB sender poolId amountA s = Inr (s', out)"
      and "read_pool (pools s) poolId = p"
  shows "tokenA p + amountA \<noteq> 0"
    and "s' = s\<lparr>pools := (pools s)(poolId \<mapsto> p
              \<lparr>tokenA := tokenA p + amountA,
               tokenB := tokenB p - (amountA * tokenB p) div (tokenA p + amountA)\<rparr>)\<rparr>"
    and "out = [\<lparr>recipient = sender,
                 amount = (amountA * tokenB p) div (tokenA p + amountA)\<rparr>]"
  using assms
  by (auto simp add: swapAtoB_def vm_mul_def vm_add_def vm_div_def vm_sub_def checked_def
        and_then_def sendToken_def Let_def split: if_splits)

lemma swapAtoB_aborts:
  assumes "tokenA (read_pool (pools s) poolId) = 0" and "amountA = 0"
  shows "swapAtoB sender poolId amountA s = Inl DivisionByZero"
  using assms
  by (simp add: swapAtoB_def vm_mul_def vm_add_def vm_div_def checked_def and_then_def
        fits_zero Let_def)

subsection \<open>The overflow abort\<close>

text \<open>
  A swap of 2 into the pool \<open>(1, 2^255)\<close> aborts on the product \<open>2 * 2^255 = 2^256\<close>.
\<close>

lemma swapAtoB_overflow_example:
  "swapAtoB ''user'' 1 2 (one_pool 1 (2 ^ 255)) = Inl IntegerOverflow"
  by (simp add: swapAtoB_def one_pool_def read_pool_def vm_mul_def checked_def fits_def
        and_then_def Let_def)

subsection \<open>The constant product and the output bound\<close>

lemma floor_product_bound:
  fixes a b d :: int
  assumes "0 < d"
  shows "d * ((a * b) div d) \<le> a * b"
proof -
  have "a * b = d * ((a * b) div d) + (a * b) mod d" by simp
  moreover have "0 \<le> (a * b) mod d" using assms by simp
  ultimately show ?thesis by linarith
qed

lemma constant_product_step:
  fixes ra rb a :: int
  assumes "0 < ra + a"
  shows "ra * rb \<le> (ra + a) * (rb - (a * rb) div (ra + a))"
proof -
  define q where "q = (a * rb) div (ra + a)"
  define x where "x = (ra + a) * q"
  define y where "y = a * rb"
  define z where "z = ra * rb"
  have le: "x \<le> y"
    unfolding x_def y_def q_def using assms by (rule floor_product_bound)
  have "(ra + a) * (rb - q) = (z + y) - x"
    unfolding x_def y_def z_def by (simp add: algebra_simps)
  with le have "z \<le> (ra + a) * (rb - q)" by linarith
  then show ?thesis unfolding z_def q_def .
qed

lemma swap_output_le_reserve:
  fixes ra rb a :: int
  assumes "0 \<le> ra" and "0 \<le> rb" and "0 < ra + a"
  shows "(a * rb) div (ra + a) \<le> rb"
proof -
  have "a \<le> ra + a" using assms(1) by simp
  then have "a * rb \<le> (ra + a) * rb"
    using assms(2) by (rule mult_right_mono)
  then have "(a * rb) div (ra + a) \<le> ((ra + a) * rb) div (ra + a)"
    using assms(3) by (rule zdiv_mono1)
  also have "((ra + a) * rb) div (ra + a) = rb"
    using assms(3) by simp
  finally show ?thesis .
qed

lemma coins_square_fits: "MAX_COINS * MAX_COINS < 2 ^ 256"
  by (simp add: MAX_COINS_def)

lemma coins_fit:
  fixes ra rb a :: int
  assumes "0 \<le> ra" and "ra \<le> MAX_COINS"
      and "0 \<le> rb" and "rb \<le> MAX_COINS"
      and "0 \<le> a" and "a \<le> MAX_COINS"
      and "ra + a \<noteq> 0"
  shows "fits (a * rb)"
    and "fits (ra + a)"
    and "fits ((a * rb) div (ra + a))"
    and "fits (rb - (a * rb) div (ra + a))"
proof -
  have big: "MAX_COINS < 2 ^ 255" by (simp add: MAX_COINS_def)
  have low: "- (2 ^ 256) \<le> (0::int)" by simp
  have pos: "0 < ra + a" using assms(1) assms(5) assms(7) by linarith
  have p0: "0 \<le> a * rb" using assms(5) assms(3) by (rule mult_nonneg_nonneg)
  have "a * rb \<le> MAX_COINS * MAX_COINS"
    using assms(6) assms(4) assms(3) by (intro mult_mono) (use assms in linarith)+
  with coins_square_fits have p1: "a * rb < 2 ^ 256" by linarith
  from p0 p1 low show "fits (a * rb)" by (simp add: fits_def)
  from pos assms(2) assms(6) big show "fits (ra + a)" by (simp add: fits_def)
  have q0: "0 \<le> (a * rb) div (ra + a)"
    using pos p0 by (simp add: pos_imp_zdiv_nonneg_iff)
  have q1: "(a * rb) div (ra + a) \<le> rb"
    using assms(1) assms(3) pos by (rule swap_output_le_reserve)
  from q0 q1 assms(4) big show "fits ((a * rb) div (ra + a))" by (simp add: fits_def)
  from q0 q1 assms(3) assms(4) big show "fits (rb - (a * rb) div (ra + a))"
    by (simp add: fits_def)
qed

lemma swapAtoB_returns_coins:
  assumes "read_pool (pools s) poolId = p"
      and "0 \<le> tokenA p" and "tokenA p \<le> MAX_COINS"
      and "0 \<le> tokenB p" and "tokenB p \<le> MAX_COINS"
      and "0 \<le> amountA" and "amountA \<le> MAX_COINS"
      and "tokenA p + amountA \<noteq> 0"
  shows "swapAtoB sender poolId amountA s =
     Inr (s\<lparr>pools := (pools s)(poolId \<mapsto> p
              \<lparr>tokenA := tokenA p + amountA,
               tokenB := tokenB p - (amountA * tokenB p) div (tokenA p + amountA)\<rparr>)\<rparr>,
          [\<lparr>recipient = sender,
            amount = (amountA * tokenB p) div (tokenA p + amountA)\<rparr>])"
  using assms(1) coins_fit(1,2) [OF assms(2-8)] assms(8) coins_fit(3,4) [OF assms(2-8)]
  by (rule swapAtoB_returns)

lemma floor_quotient_of_int:
  fixes a b c :: int
  shows "\<lfloor>(of_int (a * b) :: real) / of_int (c + a)\<rfloor> = (a * b) div (c + a)"
  by (rule floor_divide_of_int_eq)

text \<open>
  Claim C1. For every pool with both reserves positive and every positive input amount,
  whenever \<open>swapAtoB\<close> returns, the product of the reserves after the swap is at least
  the product before it; and it does return when the reserves and the input are at
  most \<open>MAX_COINS\<close>.
\<close>

theorem swapAtoB_product_nondecreasing:
  assumes "0 < tokenA (read_pool (pools s) poolId)"
      and "0 < tokenB (read_pool (pools s) poolId)"
      and "0 < amountIn"
  shows "(\<forall>s' out. swapAtoB sender poolId amountIn s = Inr (s', out) \<longrightarrow>
            tokenA (read_pool (pools s) poolId) * tokenB (read_pool (pools s) poolId)
              \<le> tokenA (read_pool (pools s') poolId) * tokenB (read_pool (pools s') poolId))
       \<and> (tokenA (read_pool (pools s) poolId) \<le> MAX_COINS
            \<and> tokenB (read_pool (pools s) poolId) \<le> MAX_COINS
            \<and> amountIn \<le> MAX_COINS \<longrightarrow>
            (\<exists>s' out. swapAtoB sender poolId amountIn s = Inr (s', out)))"
proof (intro conjI allI impI)
  fix s' out
  let ?p = "read_pool (pools s) poolId"
  assume r: "swapAtoB sender poolId amountIn s = Inr (s', out)"
  have pos: "0 < tokenA ?p + amountIn" using assms by linarith
  have s': "s' = s\<lparr>pools := (pools s)(poolId \<mapsto> ?p
              \<lparr>tokenA := tokenA ?p + amountIn,
               tokenB := tokenB ?p - (amountIn * tokenB ?p) div (tokenA ?p + amountIn)\<rparr>)\<rparr>"
    using r by (rule swapAtoB_InrD(2)) simp
  show "tokenA ?p * tokenB ?p
          \<le> tokenA (read_pool (pools s') poolId) * tokenB (read_pool (pools s') poolId)"
    using constant_product_step [OF pos, of "tokenB ?p"]
    by (simp add: s' read_pool_upd_same)
next
  let ?p = "read_pool (pools s) poolId"
  assume b: "tokenA ?p \<le> MAX_COINS \<and> tokenB ?p \<le> MAX_COINS \<and> amountIn \<le> MAX_COINS"
  have ne: "tokenA ?p + amountIn \<noteq> 0" using assms by linarith
  have "0 \<le> tokenA ?p" and "0 \<le> tokenB ?p" and "0 \<le> amountIn"
    using assms by simp_all
  with b ne show "\<exists>s' out. swapAtoB sender poolId amountIn s = Inr (s', out)"
    by (simp add: swapAtoB_returns_coins [of s poolId ?p])
qed

theorem swapAtoB_product_nondecreasing_witness:
  "0 < tokenA (read_pool (pools (one_pool 1000000 1000000)) 1)
   \<and> 0 < tokenB (read_pool (pools (one_pool 1000000 1000000)) 1)
   \<and> (0::int) < 1000
   \<and> tokenA (read_pool (pools (one_pool 1000000 1000000)) 1) \<le> MAX_COINS
   \<and> tokenB (read_pool (pools (one_pool 1000000 1000000)) 1) \<le> MAX_COINS
   \<and> 1000 \<le> MAX_COINS
   \<and> (\<exists>s' out. swapAtoB ''user'' 1 1000 (one_pool 1000000 1000000) = Inr (s', out)
        \<and> tokenA (read_pool (pools (one_pool 1000000 1000000)) 1)
            * tokenB (read_pool (pools (one_pool 1000000 1000000)) 1)
          \<le> tokenA (read_pool (pools s') 1) * tokenB (read_pool (pools s') 1))"
proof -
  have a: "0 < tokenA (read_pool (pools (one_pool 1000000 1000000)) 1)"
    and b: "0 < tokenB (read_pool (pools (one_pool 1000000 1000000)) 1)"
    by (simp_all add: read_one_pool)
  have c: "(0::int) < 1000" by simp
  have d: "tokenA (read_pool (pools (one_pool 1000000 1000000)) 1) \<le> MAX_COINS"
    and e: "tokenB (read_pool (pools (one_pool 1000000 1000000)) 1) \<le> MAX_COINS"
    and f: "1000 \<le> MAX_COINS"
    by (simp_all add: read_one_pool MAX_COINS_def)
  note main = swapAtoB_product_nondecreasing [OF a b c, of "''user''"]
  from main d e f obtain s' out
    where r: "swapAtoB ''user'' 1 1000 (one_pool 1000000 1000000) = Inr (s', out)"
    by blast
  with main have "tokenA (read_pool (pools (one_pool 1000000 1000000)) 1)
            * tokenB (read_pool (pools (one_pool 1000000 1000000)) 1)
          \<le> tokenA (read_pool (pools s') 1) * tokenB (read_pool (pools s') 1)"
    by blast
  with a b c d e f r show ?thesis by blast
qed

text \<open>
  Claim C2. Whenever the swap returns, the output it sends is
  \<open>baseOut = floor(amountIn * reserveOut / (reserveIn + amountIn))\<close>, which is the integer
  quotient, and the reserves are updated by \<open>reserveIn += amountIn\<close> and
  \<open>reserveOut -= baseOut\<close>; and it does return, with that output, when the reserves and
  the input are in \<open>[0, MAX_COINS]\<close> and the divisor is not zero.
\<close>

theorem swapAtoB_formula:
  "(\<forall>s' out. swapAtoB sender poolId amountIn s = Inr (s', out) \<longrightarrow>
      (\<exists>baseOut. out = sendToken sender baseOut
         \<and> baseOut = \<lfloor>(of_int (amountIn * tokenB (read_pool (pools s) poolId)) :: real)
                        / of_int (tokenA (read_pool (pools s) poolId) + amountIn)\<rfloor>
         \<and> baseOut = (amountIn * tokenB (read_pool (pools s) poolId))
                        div (tokenA (read_pool (pools s) poolId) + amountIn)
         \<and> tokenA (read_pool (pools s') poolId) = tokenA (read_pool (pools s) poolId) + amountIn
         \<and> tokenB (read_pool (pools s') poolId) = tokenB (read_pool (pools s) poolId) - baseOut))
   \<and> (in_coins (tokenA (read_pool (pools s) poolId))
        \<and> in_coins (tokenB (read_pool (pools s) poolId))
        \<and> in_coins amountIn
        \<and> tokenA (read_pool (pools s) poolId) + amountIn \<noteq> 0 \<longrightarrow>
        (\<exists>s'. swapAtoB sender poolId amountIn s
                = Inr (s', sendToken sender
                    ((amountIn * tokenB (read_pool (pools s) poolId))
                       div (tokenA (read_pool (pools s) poolId) + amountIn)))))"
proof (intro conjI allI impI)
  fix s' out
  let ?p = "read_pool (pools s) poolId"
  assume r: "swapAtoB sender poolId amountIn s = Inr (s', out)"
  have s': "s' = s\<lparr>pools := (pools s)(poolId \<mapsto> ?p
              \<lparr>tokenA := tokenA ?p + amountIn,
               tokenB := tokenB ?p - (amountIn * tokenB ?p) div (tokenA ?p + amountIn)\<rparr>)\<rparr>"
    using r by (rule swapAtoB_InrD(2)) simp
  have out: "out = [\<lparr>recipient = sender,
                     amount = (amountIn * tokenB ?p) div (tokenA ?p + amountIn)\<rparr>]"
    using r by (rule swapAtoB_InrD(3)) simp
  have fl: "\<lfloor>(of_int (amountIn * tokenB ?p) :: real) / of_int (tokenA ?p + amountIn)\<rfloor>
              = (amountIn * tokenB ?p) div (tokenA ?p + amountIn)"
    by (rule floor_quotient_of_int)
  show "\<exists>baseOut. out = sendToken sender baseOut
         \<and> baseOut = \<lfloor>(of_int (amountIn * tokenB ?p) :: real) / of_int (tokenA ?p + amountIn)\<rfloor>
         \<and> baseOut = (amountIn * tokenB ?p) div (tokenA ?p + amountIn)
         \<and> tokenA (read_pool (pools s') poolId) = tokenA ?p + amountIn
         \<and> tokenB (read_pool (pools s') poolId) = tokenB ?p - baseOut"
    unfolding fl by (simp add: s' out sendToken_def read_pool_upd_same)
next
  let ?p = "read_pool (pools s) poolId"
  assume "in_coins (tokenA ?p) \<and> in_coins (tokenB ?p) \<and> in_coins amountIn
            \<and> tokenA ?p + amountIn \<noteq> 0"
  then show "\<exists>s'. swapAtoB sender poolId amountIn s
                = Inr (s', sendToken sender
                    ((amountIn * tokenB ?p) div (tokenA ?p + amountIn)))"
    by (simp add: in_coins_def swapAtoB_returns_coins [of s poolId ?p] sendToken_def)
qed

theorem swapAtoB_formula_witness:
  "in_coins (tokenA (read_pool (pools (one_pool 1000000 1000000)) 1))
   \<and> in_coins (tokenB (read_pool (pools (one_pool 1000000 1000000)) 1))
   \<and> in_coins 1000
   \<and> tokenA (read_pool (pools (one_pool 1000000 1000000)) 1) + 1000 \<noteq> 0
   \<and> (\<exists>s'. swapAtoB ''user'' 1 1000 (one_pool 1000000 1000000) = Inr (s', sendToken ''user'' 999)
          \<and> tokenA (read_pool (pools s') 1) = 1001000
          \<and> tokenB (read_pool (pools s') 1) = 999001)"
proof -
  have c: "in_coins (tokenA (read_pool (pools (one_pool 1000000 1000000)) 1))"
    "in_coins (tokenB (read_pool (pools (one_pool 1000000 1000000)) 1))"
    "in_coins 1000"
    by (simp_all add: read_one_pool in_coins_def MAX_COINS_def)
  have ne: "tokenA (read_pool (pools (one_pool 1000000 1000000)) 1) + 1000 \<noteq> 0"
    by (simp add: read_one_pool)
  note main = swapAtoB_formula [of "''user''" 1 1000 "one_pool 1000000 1000000"]
  from main c ne obtain s'
    where r: "swapAtoB ''user'' 1 1000 (one_pool 1000000 1000000)
                = Inr (s', sendToken ''user''
                    ((1000 * tokenB (read_pool (pools (one_pool 1000000 1000000)) 1))
                       div (tokenA (read_pool (pools (one_pool 1000000 1000000)) 1) + 1000)))"
    by blast
  from main have "\<forall>s' out. swapAtoB ''user'' 1 1000 (one_pool 1000000 1000000) = Inr (s', out) \<longrightarrow>
      (\<exists>baseOut. out = sendToken ''user'' baseOut
         \<and> baseOut = \<lfloor>(of_int (1000 * tokenB (read_pool (pools (one_pool 1000000 1000000)) 1)) :: real)
                        / of_int (tokenA (read_pool (pools (one_pool 1000000 1000000)) 1) + 1000)\<rfloor>
         \<and> baseOut = (1000 * tokenB (read_pool (pools (one_pool 1000000 1000000)) 1))
                        div (tokenA (read_pool (pools (one_pool 1000000 1000000)) 1) + 1000)
         \<and> tokenA (read_pool (pools s') 1)
             = tokenA (read_pool (pools (one_pool 1000000 1000000)) 1) + 1000
         \<and> tokenB (read_pool (pools s') 1)
             = tokenB (read_pool (pools (one_pool 1000000 1000000)) 1) - baseOut)"
    by (rule conjunct1)
  from this [rule_format, OF r] obtain baseOut
    where "baseOut = (1000 * tokenB (read_pool (pools (one_pool 1000000 1000000)) 1))
                        div (tokenA (read_pool (pools (one_pool 1000000 1000000)) 1) + 1000)"
      and "tokenA (read_pool (pools s') 1)
             = tokenA (read_pool (pools (one_pool 1000000 1000000)) 1) + 1000"
      and "tokenB (read_pool (pools s') 1)
             = tokenB (read_pool (pools (one_pool 1000000 1000000)) 1) - baseOut"
    by auto
  then have "tokenA (read_pool (pools s') 1) = 1001000
             \<and> tokenB (read_pool (pools s') 1) = 999001"
    by (simp add: read_one_pool)
  with r c ne show ?thesis by (simp add: read_one_pool)
qed

text \<open>
  Claim C9. In a pool with non-negative reserves and for a non-negative input, whenever
  \<open>swapAtoB\<close> returns, the output \<open>amountB = floor(amountA * tokenB / (tokenA + amountA))\<close>
  that it sends is at most \<open>tokenB\<close>, so the output-side reserve stays non-negative; it
  does return when \<open>tokenA + amountA > 0\<close> and the three values are at most \<open>MAX_COINS\<close>;
  and when \<open>tokenA + amountA = 0\<close> nothing guards the division and the call aborts on it.
\<close>

theorem swapAtoB_output_bounded:
  assumes "0 \<le> tokenA (read_pool (pools s) poolId)"
      and "0 \<le> tokenB (read_pool (pools s) poolId)"
      and "0 \<le> amountA"
  shows "(\<forall>s' out. swapAtoB sender poolId amountA s = Inr (s', out) \<longrightarrow>
            0 < tokenA (read_pool (pools s) poolId) + amountA
            \<and> out = sendToken sender
                       ((amountA * tokenB (read_pool (pools s) poolId))
                          div (tokenA (read_pool (pools s) poolId) + amountA))
            \<and> (amountA * tokenB (read_pool (pools s) poolId))
                  div (tokenA (read_pool (pools s) poolId) + amountA)
                \<le> tokenB (read_pool (pools s) poolId)
            \<and> 0 \<le> tokenB (read_pool (pools s') poolId))
       \<and> (0 < tokenA (read_pool (pools s) poolId) + amountA
            \<and> tokenA (read_pool (pools s) poolId) \<le> MAX_COINS
            \<and> tokenB (read_pool (pools s) poolId) \<le> MAX_COINS
            \<and> amountA \<le> MAX_COINS \<longrightarrow>
            (\<exists>s'. swapAtoB sender poolId amountA s
                     = Inr (s', sendToken sender
                         ((amountA * tokenB (read_pool (pools s) poolId))
                            div (tokenA (read_pool (pools s) poolId) + amountA)))))
       \<and> (tokenA (read_pool (pools s) poolId) + amountA = 0 \<longrightarrow>
            swapAtoB sender poolId amountA s = Inl DivisionByZero)"
proof (intro conjI allI impI)
  fix s' out
  let ?p = "read_pool (pools s) poolId"
  assume r: "swapAtoB sender poolId amountA s = Inr (s', out)"
  have ne: "tokenA ?p + amountA \<noteq> 0"
    using r by (rule swapAtoB_InrD(1)) simp
  with assms show pos: "0 < tokenA ?p + amountA" by linarith
  have s': "s' = s\<lparr>pools := (pools s)(poolId \<mapsto> ?p
              \<lparr>tokenA := tokenA ?p + amountA,
               tokenB := tokenB ?p - (amountA * tokenB ?p) div (tokenA ?p + amountA)\<rparr>)\<rparr>"
    using r by (rule swapAtoB_InrD(2)) simp
  show "out = sendToken sender ((amountA * tokenB ?p) div (tokenA ?p + amountA))"
    unfolding sendToken_def using r by (rule swapAtoB_InrD(3)) simp
  show le: "(amountA * tokenB ?p) div (tokenA ?p + amountA) \<le> tokenB ?p"
    using assms(1) assms(2) pos by (rule swap_output_le_reserve)
  then show "0 \<le> tokenB (read_pool (pools s') poolId)"
    by (simp add: s' read_pool_upd_same)
next
  let ?p = "read_pool (pools s) poolId"
  assume "0 < tokenA ?p + amountA \<and> tokenA ?p \<le> MAX_COINS \<and> tokenB ?p \<le> MAX_COINS
            \<and> amountA \<le> MAX_COINS"
  with assms show "\<exists>s'. swapAtoB sender poolId amountA s
                     = Inr (s', sendToken sender
                         ((amountA * tokenB ?p) div (tokenA ?p + amountA)))"
    by (simp add: swapAtoB_returns_coins [of s poolId ?p] sendToken_def)
next
  assume "tokenA (read_pool (pools s) poolId) + amountA = 0"
  with assms have "tokenA (read_pool (pools s) poolId) = 0" and "amountA = 0"
    by linarith+
  then show "swapAtoB sender poolId amountA s = Inl DivisionByZero"
    by (rule swapAtoB_aborts)
qed

theorem swapAtoB_output_bounded_witness:
  "(\<exists>s'. swapAtoB ''user'' 1 5 (one_pool 10 20) = Inr (s', sendToken ''user'' 6)
        \<and> (6::int) \<le> 20 \<and> 0 \<le> tokenB (read_pool (pools s') 1))
   \<and> swapAtoB ''user'' 1 0 (one_pool 0 7) = Inl DivisionByZero"
proof -
  have a: "0 \<le> tokenA (read_pool (pools (one_pool 10 20)) 1)"
    and b: "0 \<le> tokenB (read_pool (pools (one_pool 10 20)) 1)"
    and c: "0 \<le> tokenA (read_pool (pools (one_pool 0 7)) 1)"
    and d: "0 \<le> tokenB (read_pool (pools (one_pool 0 7)) 1)"
    by (simp_all add: read_one_pool)
  have e: "(0::int) \<le> 5" and f: "(0::int) \<le> 0" by simp_all
  have bound: "0 < tokenA (read_pool (pools (one_pool 10 20)) 1) + 5
      \<and> tokenA (read_pool (pools (one_pool 10 20)) 1) \<le> MAX_COINS
      \<and> tokenB (read_pool (pools (one_pool 10 20)) 1) \<le> MAX_COINS
      \<and> 5 \<le> MAX_COINS"
    by (simp add: read_one_pool MAX_COINS_def)
  have zero: "tokenA (read_pool (pools (one_pool 0 7)) 1) + 0 = 0"
    by (simp add: read_one_pool)
  note main = swapAtoB_output_bounded [OF a b e, of "''user''"]
  from main bound obtain s'
    where r: "swapAtoB ''user'' 1 5 (one_pool 10 20)
                = Inr (s', sendToken ''user''
                    ((5 * tokenB (read_pool (pools (one_pool 10 20)) 1))
                       div (tokenA (read_pool (pools (one_pool 10 20)) 1) + 5)))"
    by blast
  from main r have nn: "0 \<le> tokenB (read_pool (pools s') 1)"
    by blast
  from r have r': "swapAtoB ''user'' 1 5 (one_pool 10 20) = Inr (s', sendToken ''user'' 6)"
    by (simp add: read_one_pool)
  from swapAtoB_output_bounded [OF c d f, of "''user''"] zero
  have "swapAtoB ''user'' 1 0 (one_pool 0 7) = Inl DivisionByZero"
    by blast
  with r' nn show ?thesis by auto
qed

text \<open>
  Claim C10. Whatever the state and the input, the state \<open>swapAtoB\<close> leaves behind differs
  from the old one at most in \<open>tokenA\<close> and \<open>tokenB\<close> of the selected pool: that pool's
  \<open>totalLiquidity\<close> and \<open>liquidityProviders\<close>, every other entry of \<open>pools\<close>, and
  \<open>poolCount\<close> are as before.
\<close>

theorem swapAtoB_frame:
  "totalLiquidity (read_pool (pools (state_after s (swapAtoB sender poolId amountA s))) poolId)
     = totalLiquidity (read_pool (pools s) poolId)
   \<and> liquidityProviders (read_pool (pools (state_after s (swapAtoB sender poolId amountA s))) poolId)
     = liquidityProviders (read_pool (pools s) poolId)
   \<and> (\<forall>q. q \<noteq> poolId \<longrightarrow>
         pools (state_after s (swapAtoB sender poolId amountA s)) q = pools s q)
   \<and> poolCount (state_after s (swapAtoB sender poolId amountA s)) = poolCount s"
proof (cases "swapAtoB sender poolId amountA s")
  case (Inl e)
  then show ?thesis
    by (simp add: state_after_def)
next
  case (Inr x)
  obtain s' out where x: "x = (s', out)" by (cases x)
  let ?p = "read_pool (pools s) poolId"
  have r: "swapAtoB sender poolId amountA s = Inr (s', out)"
    using Inr x by simp
  have s': "s' = s\<lparr>pools := (pools s)(poolId \<mapsto> ?p
              \<lparr>tokenA := tokenA ?p + amountA,
               tokenB := tokenB ?p - (amountA * tokenB ?p) div (tokenA ?p + amountA)\<rparr>)\<rparr>"
    using r by (rule swapAtoB_InrD(2)) simp
  show ?thesis
    unfolding r by (simp add: state_after_def s' read_pool_upd_same)
qed

theorem swapAtoB_frame_witness:
  "(2::int) \<noteq> 1
   \<and> pools (state_after (two_pools (plain_pool 10 20) (plain_pool 3 4))
        (swapAtoB ''user'' 1 5 (two_pools (plain_pool 10 20) (plain_pool 3 4)))) 2
       = Some (plain_pool 3 4)
   \<and> tokenA (read_pool (pools (state_after (two_pools (plain_pool 10 20) (plain_pool 3 4))
        (swapAtoB ''user'' 1 5 (two_pools (plain_pool 10 20) (plain_pool 3 4))))) 1) = 15
   \<and> totalLiquidity (read_pool (pools (state_after (two_pools (plain_pool 10 20) (plain_pool 3 4))
        (swapAtoB ''user'' 1 5 (two_pools (plain_pool 10 20) (plain_pool 3 4))))) 1) = 30"
proof -
  let ?s = "two_pools (plain_pool 10 20) (plain_pool 3 4)"
  have ne: "(2::int) \<noteq> 1" by simp
  have frame: "\<forall>q. q \<noteq> 1 \<longrightarrow> pools (state_after ?s (swapAtoB ''user'' 1 5 ?s)) q = pools ?s q"
    and liq: "totalLiquidity (read_pool (pools (state_after ?s (swapAtoB ''user'' 1 5 ?s))) 1)
                = totalLiquidity (read_pool (pools ?s) 1)"
    using swapAtoB_frame [of ?s "''user''" 1 5] by blast+
  from frame ne have "pools (state_after ?s (swapAtoB ''user'' 1 5 ?s)) 2 = pools ?s 2"
    by blast
  then have other: "pools (state_after ?s (swapAtoB ''user'' 1 5 ?s)) 2 = Some (plain_pool 3 4)"
    by (simp add: two_pools_def)
  have ra: "tokenA (read_pool (pools (state_after ?s (swapAtoB ''user'' 1 5 ?s))) 1) = 15"
    by (simp add: two_pools_def plain_pool_def read_pool_def swapAtoB_def state_after_def
          sendToken_def vm_mul_def vm_add_def vm_div_def vm_sub_def checked_def fits_def
          and_then_def Let_def)
  from liq have "totalLiquidity (read_pool (pools (state_after ?s (swapAtoB ''user'' 1 5 ?s))) 1) = 30"
    by (simp add: two_pools_def plain_pool_def read_pool_def)
  with ne other ra show ?thesis by blast
qed

subsection \<open>What the swap does not do: fees and validation\<close>

lemma swapAtoB_scenario:
  "swapAtoB ''user'' 1 1000 (one_pool 1000000 1000000)
     = Inr (\<lparr>pools = Map.empty(1 \<mapsto> \<lparr>totalLiquidity = 2000000, tokenA = 1001000,
                                          tokenB = 999001, liquidityProviders = Map.empty\<rparr>),
             poolCount = 1\<rparr>,
            [\<lparr>recipient = ''user'', amount = 999\<rparr>])"
  by (simp add: swapAtoB_def one_pool_def read_pool_def sendToken_def vm_mul_def vm_add_def
        vm_div_def vm_sub_def checked_def fits_def and_then_def Let_def)

text \<open>
  Claim C3, as stated, fails on the contract. With the reserves \<open>(1000000, 1000000)\<close>
  and the input 1000 the base output is 999; with the fee rates 30, 5 and 0 the
  specification's formula delivers 995, and the contract sends the whole 999.
\<close>

theorem swapAtoB_fee_counterexample:
  "transfers_of (swapAtoB ''user'' 1 1000 (one_pool 1000000 1000000)) = sendToken ''user'' 999
   \<and> (1000 * 1000000) div (1000000 + 1000) = (999::int)
   \<and> spec_amountOut 999 30 5 0 False = 995
   \<and> transfers_of (swapAtoB ''user'' 1 1000 (one_pool 1000000 1000000))
       \<noteq> sendToken ''user'' (spec_amountOut 999 30 5 0 False)"
  by (simp add: swapAtoB_scenario transfers_of_def sendToken_def spec_amountOut_def
        spec_fee_def FEE_DIVIDER_def)

text \<open>
  Claim C3, amended. \<open>swapAtoB\<close> charges no provider, protocol or referral fee: whenever
  the swap returns, the single transfer it emits pays the sender exactly
  \<open>baseOut = floor(amountIn * tokenB / (tokenA + amountIn))\<close>.
\<close>

theorem swapAtoB_delivers_baseOut:
  assumes "swapAtoB sender poolId amountIn s = Inr (s', out)"
  shows "out = [\<lparr>recipient = sender,
                 amount = (amountIn * tokenB (read_pool (pools s) poolId))
                            div (tokenA (read_pool (pools s) poolId) + amountIn)\<rparr>]
         \<and> transfers_of (swapAtoB sender poolId amountIn s) = out"
proof -
  have "out = [\<lparr>recipient = sender,
                 amount = (amountIn * tokenB (read_pool (pools s) poolId))
                            div (tokenA (read_pool (pools s) poolId) + amountIn)\<rparr>]"
    using assms by (rule swapAtoB_InrD(3)) simp
  then show ?thesis by (simp add: assms transfers_of_def)
qed

theorem swapAtoB_delivers_baseOut_witness:
  "swapAtoB ''user'' 1 1000 (one_pool 1000000 1000000)
     = Inr (\<lparr>pools = Map.empty(1 \<mapsto> \<lparr>totalLiquidity = 2000000, tokenA = 1001000,
                                          tokenB = 999001, liquidityProviders = Map.empty\<rparr>),
             poolCount = 1\<rparr>,
            [\<lparr>recipient = ''user'', amount = 999\<rparr>])
   \<and> transfers_of (swapAtoB ''user'' 1 1000 (one_pool 1000000 1000000))
       = [\<lparr>recipient = ''user'', amount = 999\<rparr>]"
proof -
  note r = swapAtoB_scenario
  from swapAtoB_delivers_baseOut [OF r]
  have "transfers_of (swapAtoB ''user'' 1 1000 (one_pool 1000000 1000000))
          = [\<lparr>recipient = ''user'', amount = 999\<rparr>]"
    by blast
  with r show ?thesis by blast
qed

text \<open>
  Claim C4, as stated, fails on the contract. A swap of 0 into the pool
  \<open>(1000000, 1000000)\<close> returns and sends 0 instead of failing, and a swap of 3 into a
  pool whose \<open>tokenA\<close> reserve is 0 returns, sends the whole \<open>tokenB\<close> reserve and writes
  the new reserves.
\<close>

theorem swapAtoB_validation_counterexample:
  "swapAtoB ''user'' 1 0 (one_pool 1000000 1000000)
     = Inr (one_pool 1000000 1000000, [\<lparr>recipient = ''user'', amount = 0\<rparr>])
   \<and> swapAtoB ''user'' 1 3 (one_pool 0 5)
     = Inr (\<lparr>pools = Map.empty(1 \<mapsto> \<lparr>totalLiquidity = 5, tokenA = 3, tokenB = 0,
                                          liquidityProviders = Map.empty\<rparr>),
             poolCount = 1\<rparr>,
            [\<lparr>recipient = ''user'', amount = 5\<rparr>])"
  by (simp add: swapAtoB_def one_pool_def read_pool_def sendToken_def vm_mul_def vm_add_def
        vm_div_def vm_sub_def checked_def fits_def and_then_def Let_def)

lemma read_pool_present:
  assumes "tokenA (read_pool m k) \<noteq> 0"
  shows "m k = Some (read_pool m k)"
  using assms by (cases "m k") (simp_all add: read_pool_def zero_Pool_def)

lemma swapAtoB_zero_input:
  assumes "tokenA (read_pool (pools s) poolId) \<noteq> 0"
      and "in_coins (tokenA (read_pool (pools s) poolId))"
      and "in_coins (tokenB (read_pool (pools s) poolId))"
  shows "swapAtoB sender poolId 0 s = Inr (s, sendToken sender 0)"
proof -
  let ?p = "read_pool (pools s) poolId"
  have "pools s poolId = Some ?p"
    using assms(1) by (rule read_pool_present)
  then have same: "(pools s)(poolId \<mapsto> ?p) = pools s"
    by (rule map_upd_triv)
  have "swapAtoB sender poolId 0 s =
     Inr (s\<lparr>pools := (pools s)(poolId \<mapsto> ?p
              \<lparr>tokenA := tokenA ?p + 0,
               tokenB := tokenB ?p - (0 * tokenB ?p) div (tokenA ?p + 0)\<rparr>)\<rparr>,
          [\<lparr>recipient = sender, amount = (0 * tokenB ?p) div (tokenA ?p + 0)\<rparr>])"
    using assms by (intro swapAtoB_returns_coins) (simp_all add: in_coins_def MAX_COINS_def)
  then show ?thesis
    by (simp add: same sendToken_def)
qed

text \<open>
  Claim C4, amended. \<open>swapAtoB\<close> checks neither the amount nor the reserves and raises
  no \<open>LowAmount\<close> or \<open>NoLiquidity\<close>: with the reserves and the input in \<open>[0, MAX_COINS]\<close>
  it returns whenever \<open>tokenA + amountIn\<close> is not zero. There, with \<open>amountIn = 0\<close> it
  sends 0 and leaves the state as it was; against \<open>tokenB = 0\<close> it sends 0 and adds the
  input to \<open>tokenA\<close>; against \<open>tokenA = 0\<close> it sends the whole \<open>tokenB\<close> reserve.
\<close>

theorem swapAtoB_no_validation:
  assumes "in_coins (tokenA (read_pool (pools s) poolId))"
      and "in_coins (tokenB (read_pool (pools s) poolId))"
      and "in_coins amountIn"
      and "tokenA (read_pool (pools s) poolId) + amountIn \<noteq> 0"
  shows "(\<exists>s' out. swapAtoB sender poolId amountIn s = Inr (s', out))
       \<and> (amountIn = 0 \<longrightarrow> swapAtoB sender poolId amountIn s = Inr (s, sendToken sender 0))
       \<and> (tokenB (read_pool (pools s) poolId) = 0 \<longrightarrow>
            (\<exists>s'. swapAtoB sender poolId amountIn s = Inr (s', sendToken sender 0)
                 \<and> tokenA (read_pool (pools s') poolId)
                     = tokenA (read_pool (pools s) poolId) + amountIn
                 \<and> tokenB (read_pool (pools s') poolId) = 0))
       \<and> (tokenA (read_pool (pools s) poolId) = 0 \<longrightarrow>
            (\<exists>s'. swapAtoB sender poolId amountIn s
                     = Inr (s', sendToken sender (tokenB (read_pool (pools s) poolId)))
                 \<and> tokenA (read_pool (pools s') poolId) = amountIn
                 \<and> tokenB (read_pool (pools s') poolId) = 0))"
proof -
  let ?p = "read_pool (pools s) poolId"
  have ret: "swapAtoB sender poolId amountIn s =
     Inr (s\<lparr>pools := (pools s)(poolId \<mapsto> ?p
              \<lparr>tokenA := tokenA ?p + amountIn,
               tokenB := tokenB ?p - (amountIn * tokenB ?p) div (tokenA ?p + amountIn)\<rparr>)\<rparr>,
          [\<lparr>recipient = sender,
            amount = (amountIn * tokenB ?p) div (tokenA ?p + amountIn)\<rparr>])"
    using assms by (intro swapAtoB_returns_coins) (simp_all add: in_coins_def)
  show ?thesis
  proof (intro conjI impI)
    show "\<exists>s' out. swapAtoB sender poolId amountIn s = Inr (s', out)"
      by (simp add: ret)
  next
    assume z: "amountIn = 0"
    with assms(4) have "tokenA ?p \<noteq> 0" by simp
    then show "swapAtoB sender poolId amountIn s = Inr (s, sendToken sender 0)"
      unfolding z using assms(1) assms(2) by (rule swapAtoB_zero_input)
  next
    assume "tokenB ?p = 0"
    then show "\<exists>s'. swapAtoB sender poolId amountIn s = Inr (s', sendToken sender 0)
                 \<and> tokenA (read_pool (pools s') poolId) = tokenA ?p + amountIn
                 \<and> tokenB (read_pool (pools s') poolId) = 0"
      by (simp add: ret sendToken_def read_pool_upd_same)
  next
    assume z: "tokenA ?p = 0"
    with assms(4) have "amountIn \<noteq> 0" by simp
    with z show "\<exists>s'. swapAtoB sender poolId amountIn s
                     = Inr (s', sendToken sender (tokenB ?p))
                 \<and> tokenA (read_pool (pools s') poolId) = amountIn
                 \<and> tokenB (read_pool (pools s') poolId) = 0"
      by (simp add: ret sendToken_def read_pool_upd_same)
  qed
qed

theorem swapAtoB_no_validation_witness:
  "swapAtoB ''user'' 1 0 (one_pool 7 9) = Inr (one_pool 7 9, sendToken ''user'' 0)
   \<and> (\<exists>s'. swapAtoB ''user'' 1 4 (one_pool 7 0) = Inr (s', sendToken ''user'' 0)
          \<and> tokenA (read_pool (pools s') 1) = 11 \<and> tokenB (read_pool (pools s') 1) = 0)
   \<and> (\<exists>s'. swapAtoB ''user'' 1 3 (one_pool 0 5) = Inr (s', sendToken ''user'' 5)
          \<and> tokenA (read_pool (pools s') 1) = 3 \<and> tokenB (read_pool (pools s') 1) = 0)"
proof -
  have i1: "in_coins (tokenA (read_pool (pools (one_pool 7 9)) 1))"
    "in_coins (tokenB (read_pool (pools (one_pool 7 9)) 1))" "in_coins 0"
    and i2: "in_coins (tokenA (read_pool (pools (one_pool 7 0)) 1))"
    "in_coins (tokenB (read_pool (pools (one_pool 7 0)) 1))" "in_coins 4"
    and i3: "in_coins (tokenA (read_pool (pools (one_pool 0 5)) 1))"
    "in_coins (tokenB (read_pool (pools (one_pool 0 5)) 1))" "in_coins 3"
    by (simp_all add: read_one_pool in_coins_def MAX_COINS_def)
  have n1: "tokenA (read_pool (pools (one_pool 7 9)) 1) + 0 \<noteq> 0"
    and n2: "tokenA (read_pool (pools (one_pool 7 0)) 1) + 4 \<noteq> 0"
    and n3: "tokenA (read_pool (pools (one_pool 0 5)) 1) + 3 \<noteq> 0"
    by (simp_all add: read_one_pool)
  have b0: "tokenB (read_pool (pools (one_pool 7 0)) 1) = 0"
    and a0: "tokenA (read_pool (pools (one_pool 0 5)) 1) = 0"
    by (simp_all add: read_one_pool)
  from swapAtoB_no_validation [OF i1 n1, of "''user''"]
  have c1: "swapAtoB ''user'' 1 0 (one_pool 7 9) = Inr (one_pool 7 9, sendToken ''user'' 0)"
    by blast
  from swapAtoB_no_validation [OF i2 n2, of "''user''"] b0
  have c2: "\<exists>s'. swapAtoB ''user'' 1 4 (one_pool 7 0) = Inr (s', sendToken ''user'' 0)
          \<and> tokenA (read_pool (pools s') 1) = 11 \<and> tokenB (read_pool (pools s') 1) = 0"
    by (simp add: read_one_pool)
  from swapAtoB_no_validation [OF i3 n3, of "''user''"] a0
  have c3: "\<exists>s'. swapAtoB ''user'' 1 3 (one_pool 0 5) = Inr (s', sendToken ''user'' 5)
          \<and> tokenA (read_pool (pools s') 1) = 3 \<and> tokenB (read_pool (pools s') 1) = 0"
    by (simp add: read_one_pool)
  from c1 c2 c3 show ?thesis by blast
qed

section \<open>Properties of the first deposit\<close>

lemma read_initial_pool: "read_pool (pools initial_state) k = zero_Pool"
  by (simp add: initial_state_def read_pool_def)

lemma createPool_InrD:
  assumes "createPool amountA amountB s = Inr (s', pid)"
  shows "pid = poolCount s + 1"
    and "s' = s\<lparr>pools := (pools s)(pid \<mapsto>
                  \<lparr>totalLiquidity = amountA + amountB, tokenA = amountA, tokenB = amountB,
                   liquidityProviders = Map.empty\<rparr>),
                poolCount := pid\<rparr>"
  using assms
  by (auto simp add: createPool_def vm_add_def checked_def and_then_def Let_def
        split: if_splits)

lemma addLiquidity_InrD:
  assumes "addLiquidity sender poolId amountA amountB s = Inr s'"
      and "read_pool (pools s) poolId = p"
  shows "s' = s\<lparr>pools := (pools s)(poolId \<mapsto> p
            \<lparr>tokenA := tokenA p + amountA, tokenB := tokenB p + amountB,
             totalLiquidity := totalLiquidity p + (amountA + amountB),
             liquidityProviders := (liquidityProviders p)
               (sender \<mapsto> read_balance (liquidityProviders p) sender + (amountA + amountB))\<rparr>)\<rparr>"
  using assms
  by (auto simp add: addLiquidity_def vm_add_def checked_def and_then_def Let_def
        split: if_splits)

lemma createPool_example:
  "createPool 100000 400000 initial_state
     = Inr (\<lparr>pools = Map.empty(1 \<mapsto> \<lparr>totalLiquidity = 500000, tokenA = 100000,
                                          tokenB = 400000, liquidityProviders = Map.empty\<rparr>),
             poolCount = 1\<rparr>, 1)"
  by (simp add: createPool_def initial_state_def vm_add_def checked_def fits_def and_then_def)

lemma addLiquidity_example:
  "addLiquidity ''lp'' 1 100000 400000 initial_state
     = Inr \<lparr>pools = Map.empty(1 \<mapsto> \<lparr>totalLiquidity = 500000, tokenA = 100000,
                                         tokenB = 400000,
                                         liquidityProviders = Map.empty(''lp'' \<mapsto> 500000)\<rparr>),
            poolCount = 0\<rparr>"
  by (simp add: addLiquidity_def initial_state_def read_pool_def zero_Pool_def read_balance_def
        vm_add_def checked_def fits_def and_then_def Let_def)

text \<open>
  Claim C5, as stated, fails on the contract. A first deposit of 100000 and 400000,
  through \<open>createPool\<close> or through \<open>addLiquidity\<close> into a pool without liquidity, returns
  and records 500000, not \<open>isqrt(100000 * 400000) = 200000\<close>.
\<close>

theorem first_deposit_counterexample:
  "createPool 100000 400000 initial_state
     = Inr (\<lparr>pools = Map.empty(1 \<mapsto> \<lparr>totalLiquidity = 500000, tokenA = 100000,
                                          tokenB = 400000, liquidityProviders = Map.empty\<rparr>),
             poolCount = 1\<rparr>, 1)
   \<and> addLiquidity ''lp'' 1 100000 400000 initial_state
     = Inr \<lparr>pools = Map.empty(1 \<mapsto> \<lparr>totalLiquidity = 500000, tokenA = 100000,
                                         tokenB = 400000,
                                         liquidityProviders = Map.empty(''lp'' \<mapsto> 500000)\<rparr>),
            poolCount = 0\<rparr>
   \<and> (500000::int) \<noteq> 200000"
  by (simp add: createPool_example addLiquidity_example)

text \<open>
  Claim C5, amended. The liquidity recorded for a first deposit is the sum of the two
  amounts: whenever \<open>createPool\<close> returns, \<open>totalLiquidity\<close> of the new pool is
  \<open>amountA + amountB\<close>, and whenever \<open>addLiquidity\<close> into a pool whose \<open>totalLiquidity\<close>
  is 0 returns, it has set \<open>totalLiquidity\<close> to \<open>amountA + amountB\<close> and credited the sender
  with \<open>amountA + amountB\<close> on top of the old balance.
\<close>

theorem first_deposit_records_sum:
  "(\<forall>s' pid. createPool amountA amountB s = Inr (s', pid) \<longrightarrow>
       totalLiquidity (read_pool (pools s') pid) = amountA + amountB)
   \<and> (\<forall>s'. totalLiquidity (read_pool (pools s) poolId) = 0
          \<and> addLiquidity sender poolId amountA amountB s = Inr s' \<longrightarrow>
        totalLiquidity (read_pool (pools s') poolId) = amountA + amountB
        \<and> read_balance (liquidityProviders (read_pool (pools s') poolId)) sender
          = read_balance (liquidityProviders (read_pool (pools s) poolId)) sender
              + (amountA + amountB))"
proof (intro conjI allI impI)
  fix s' pid
  assume "createPool amountA amountB s = Inr (s', pid)"
  then have "s' = s\<lparr>pools := (pools s)(pid \<mapsto>
                  \<lparr>totalLiquidity = amountA + amountB, tokenA = amountA, tokenB = amountB,
                   liquidityProviders = Map.empty\<rparr>),
                poolCount := pid\<rparr>"
    by (rule createPool_InrD(2))
  then show "totalLiquidity (read_pool (pools s') pid) = amountA + amountB"
    by (simp add: read_pool_upd_same)
next
  fix s'
  let ?p = "read_pool (pools s) poolId"
  assume h: "totalLiquidity ?p = 0 \<and> addLiquidity sender poolId amountA amountB s = Inr s'"
  then have r: "addLiquidity sender poolId amountA amountB s = Inr s'" by simp
  have s': "s' = s\<lparr>pools := (pools s)(poolId \<mapsto> ?p
            \<lparr>tokenA := tokenA ?p + amountA, tokenB := tokenB ?p + amountB,
             totalLiquidity := totalLiquidity ?p + (amountA + amountB),
             liquidityProviders := (liquidityProviders ?p)
               (sender \<mapsto> read_balance (liquidityProviders ?p) sender + (amountA + amountB))\<rparr>)\<rparr>"
    using r by (rule addLiquidity_InrD) simp
  from h show "totalLiquidity (read_pool (pools s') poolId) = amountA + amountB"
    by (simp add: s' read_pool_upd_same)
  show "read_balance (liquidityProviders (read_pool (pools s') poolId)) sender
          = read_balance (liquidityProviders ?p) sender + (amountA + amountB)"
    by (simp add: s' read_pool_upd_same read_balance_def)
qed

theorem first_deposit_records_sum_witness:
  "totalLiquidity (read_pool (pools initial_state) 1) = 0
   \<and> (\<exists>s' pid. createPool 100000 400000 initial_state = Inr (s', pid)
         \<and> totalLiquidity (read_pool (pools s') pid) = 500000)
   \<and> (\<exists>s'. addLiquidity ''lp'' 1 100000 400000 initial_state = Inr s'
         \<and> totalLiquidity (read_pool (pools s') 1) = 500000
         \<and> read_balance (liquidityProviders (read_pool (pools s') 1)) ''lp'' = 500000)
   \<and> createPool (2 ^ 255) (2 ^ 255) initial_state = Inl IntegerOverflow"
proof -
  have over: "createPool (2 ^ 255) (2 ^ 255) initial_state = Inl IntegerOverflow"
    by (simp add: createPool_def initial_state_def vm_add_def checked_def fits_def and_then_def)
  have z: "totalLiquidity (read_pool (pools initial_state) 1) = 0"
    by (simp add: read_initial_pool zero_Pool_def)
  note main = first_deposit_records_sum [of 100000 400000 initial_state 1 "''lp''"]
  note c = createPool_example
  note a = addLiquidity_example
  from main c have c': "totalLiquidity (read_pool (pools
      \<lparr>pools = Map.empty(1 \<mapsto> \<lparr>totalLiquidity = 500000, tokenA = 100000,
                                   tokenB = 400000, liquidityProviders = Map.empty\<rparr>),
       poolCount = 1\<rparr>) 1) = 100000 + 400000"
    by blast
  from main z a have a': "totalLiquidity (read_pool (pools
      \<lparr>pools = Map.empty(1 \<mapsto> \<lparr>totalLiquidity = 500000, tokenA = 100000,
                                   tokenB = 400000,
                                   liquidityProviders = Map.empty(''lp'' \<mapsto> 500000)\<rparr>),
       poolCount = 0\<rparr>) 1) = 100000 + 400000
     \<and> read_balance (liquidityProviders (read_pool (pools
      \<lparr>pools = Map.empty(1 \<mapsto> \<lparr>totalLiquidity = 500000, tokenA = 100000,
                                   tokenB = 400000,
                                   liquidityProviders = Map.empty(''lp'' \<mapsto> 500000)\<rparr>),
       poolCount = 0\<rparr>) 1)) ''lp''
       = read_balance (liquidityProviders (read_pool (pools initial_state) 1)) ''lp''
           + (100000 + 400000)"
    by blast
  from z c c' a a' over show ?thesis
    by (simp add: read_initial_pool zero_Pool_def read_balance_def)
qed

section \<open>Properties of the initial data\<close>

lemma poolConfigToCell_slots:
  assumes "0 \<le> min_liquidity config" and "min_liquidity config < 2 ^ 128"
  shows "poolConfigToCell config =
     Inr (Cell [StoredRef (Cell [StoredAddress (owner_address config)]),
                StoredRef (Cell [StoredAddress (token_a_address config)]),
                StoredRef (Cell [StoredAddress (token_b_address config)]),
                StoredUint 128 0, StoredUint 128 0, StoredUint 128 0,
                StoredUint 128 (min_liquidity config), StoredUint 1 0,
                StoredDict [],
                StoredRef (Cell [StoredAddress (lp_token_address config)])])"
  using assms
  by (simp add: poolConfigToCell_def and_then_def storeUint_def storeRef_def storeAddress_def
        storeDict_def beginCell_def endCell_def)

text \<open>
  Claim C7. For every configuration whose \<open>min_liquidity\<close> fits into 128 bits,
  \<open>poolConfigToCell\<close> returns a data cell, and in that cell \<open>reserve_a\<close>, \<open>reserve_b\<close> and
  \<open>total_supply\<close> are 0 and \<open>is_locked\<close> is 0: the pool starts \<open>Active\<close>, with empty
  reserves and no supply.
\<close>

theorem poolConfigToCell_initial:
  assumes "0 \<le> min_liquidity config" and "min_liquidity config < 2 ^ 128"
  shows "\<exists>c. poolConfigToCell config = Inr c
           \<and> status c = Active \<and> is_locked c = 0
           \<and> reserve_a c = 0 \<and> reserve_b c = 0 \<and> total_supply c = 0"
  by (simp add: poolConfigToCell_slots [OF assms] status_def is_locked_def reserve_a_def
        reserve_b_def total_supply_def uint_fields_def)

theorem poolConfigToCell_initial_witness:
  "0 \<le> min_liquidity example_config \<and> min_liquidity example_config < 2 ^ 128
   \<and> (\<exists>c. poolConfigToCell example_config = Inr c
          \<and> status c = Active \<and> is_locked c = 0
          \<and> reserve_a c = 0 \<and> reserve_b c = 0 \<and> total_supply c = 0)"
proof -
  have lo: "0 \<le> min_liquidity example_config"
    and hi: "min_liquidity example_config < 2 ^ 128"
    by (simp_all add: example_config_def)
  from poolConfigToCell_initial [OF lo hi] lo hi show ?thesis by blast
qed

section \<open>Properties of the fee administration\<close>

text \<open>
  Claim C6. A \<open>set_fees\<close> request of an authorized caller on an unlocked pool fails with
  \<open>FeeOutOfRange\<close> when any of the three new rates is above 200; no request with such a
  rate succeeds; and after every successful \<open>set_fees\<close> the three stored rates are the
  requested ones and at most 200.
\<close>

theorem set_fees_rates_in_range:
  "(caller \<in> authorizedSet pool \<and> \<not> isLocked pool
      \<and> (200 < newLpFee \<or> 200 < newProtocolFee \<or> 200 < newRefFee) \<longrightarrow>
      set_fees caller newLpFee newProtocolFee newRefFee provAddr protoAddr pool
        = Inl FeeOutOfRange)
   \<and> (200 < newLpFee \<or> 200 < newProtocolFee \<or> 200 < newRefFee \<longrightarrow>
        (\<exists>e. set_fees caller newLpFee newProtocolFee newRefFee provAddr protoAddr pool = Inl e))
   \<and> (\<forall>pool'. set_fees caller newLpFee newProtocolFee newRefFee provAddr protoAddr pool
                 = Inr pool' \<longrightarrow>
        lpFeeRate pool' = newLpFee \<and> protocolFeeRate pool' = newProtocolFee
        \<and> refFeeRate pool' = newRefFee
        \<and> lpFeeRate pool' \<le> 200 \<and> protocolFeeRate pool' \<le> 200 \<and> refFeeRate pool' \<le> 200)"
  by (auto simp add: set_fees_def MAX_FEE_def split: if_splits)

theorem set_fees_rates_in_range_witness:
  "set_fees ''admin'' 201 5 0 (Some ''provider'') (Some ''protocol'') (example_pool 0 0)
     = Inl FeeOutOfRange
   \<and> (\<exists>pool'. set_fees ''admin'' 200 10 7 (Some ''provider'') (Some ''protocol'')
                (example_pool 0 0) = Inr pool'
        \<and> lpFeeRate pool' = 200 \<and> protocolFeeRate pool' = 10 \<and> refFeeRate pool' = 7)"
proof -
  have auth: "''admin'' \<in> authorizedSet (example_pool 0 0)"
    and unlocked: "\<not> isLocked (example_pool 0 0)"
    by (simp_all add: example_pool_def)
  have big: "(200::nat) < 201 \<or> (200::nat) < 5 \<or> (200::nat) < 0" by simp
  from set_fees_rates_in_range
         [of "''admin''" "example_pool 0 0" 201 5 0 "Some ''provider''" "Some ''protocol''"]
       auth unlocked big
  have c1: "set_fees ''admin'' 201 5 0 (Some ''provider'') (Some ''protocol'') (example_pool 0 0)
              = Inl FeeOutOfRange"
    by blast
  obtain pool' where ok:
    "set_fees ''admin'' 200 10 7 (Some ''provider'') (Some ''protocol'') (example_pool 0 0)
       = Inr pool'"
    by (simp add: set_fees_def MAX_FEE_def example_pool_def)
  from set_fees_rates_in_range
         [of "''admin''" "example_pool 0 0" 200 10 7 "Some ''provider''" "Some ''protocol''"]
       ok
  have "lpFeeRate pool' = 200 \<and> protocolFeeRate pool' = 10 \<and> refFeeRate pool' = 7"
    by blast
  with c1 ok show ?thesis by blast
qed

lemma collect_fees_settled:
  assumes "\<not> isLocked pool" and "below_threshold policy pool"
  shows "collect_fees policy caller gas_ok pool = Inr (pool, [])"
  using assms by (simp add: collect_fees_def)

lemma zero_below_threshold:
  assumes "collectedFees0_provider pool = 0" and "collectedFees1_provider pool = 0"
      and "collectedFees0_protocol pool = 0" and "collectedFees1_protocol pool = 0"
  shows "below_threshold policy pool"
  using assms
  by (cases policy) (simp_all add: below_threshold_def token_below_def
        REQUIRED_MIN_COLLECT_FEES_def)

lemma collect_fees_result:
  assumes "collect_fees policy caller gas_ok pool = Inr (pool', outs)"
  shows "\<not> isLocked pool' \<and> below_threshold policy pool'
         \<and> (outs \<noteq> [] \<longrightarrow>
              collectedFees0_provider pool' = 0 \<and> collectedFees1_provider pool' = 0
              \<and> collectedFees0_protocol pool' = 0 \<and> collectedFees1_protocol pool' = 0)"
proof (cases "below_threshold policy pool")
  case True
  with assms show ?thesis
    by (auto simp add: collect_fees_def split: if_splits)
next
  case False
  with assms have unlocked: "\<not> isLocked pool"
    and p': "pool' = pool\<lparr>collectedFees0_provider := 0, collectedFees1_provider := 0,
                          collectedFees0_protocol := 0, collectedFees1_protocol := 0\<rparr>"
    by (auto simp add: collect_fees_def Let_def split: if_splits)
  have "below_threshold policy pool'"
    by (rule zero_below_threshold) (simp_all add: p')
  with unlocked show ?thesis by (simp add: p')
qed

text \<open>
  Claim C8. Whenever a call of \<open>collect_fees\<close> returns, a second call right after it,
  by any caller and with any resource balance, is a no-op: it returns the same state
  and emits no payout. After a call that paid out, all fee accumulators are zero, which
  is below the minimum-collect threshold under either reading of it.
\<close>

theorem collect_fees_twice:
  assumes "collect_fees policy caller gas_ok pool = Inr (pool', outs)"
  shows "collect_fees policy caller2 gas_ok2 pool' = Inr (pool', [])
         \<and> (outs \<noteq> [] \<longrightarrow>
              collectedFees0_provider pool' = 0 \<and> collectedFees1_provider pool' = 0
              \<and> collectedFees0_protocol pool' = 0 \<and> collectedFees1_protocol pool' = 0)"
  using collect_fees_result [OF assms]
  by (simp add: collect_fees_settled)

lemma collect_fees_example:
  "collect_fees Combined ''keeper'' True (example_pool 500000 600000)
     = Inr (example_pool 0 0,
            [\<lparr>payee = Some ''keeper'', token = 0, payout_amount = 1100\<rparr>,
             \<lparr>payee = Some ''provider'', token = 0, payout_amount = 500000\<rparr>,
             \<lparr>payee = Some ''protocol'', token = 0, payout_amount = 598900\<rparr>,
             \<lparr>payee = Some ''keeper'', token = 1, payout_amount = 0\<rparr>,
             \<lparr>payee = Some ''provider'', token = 1, payout_amount = 0\<rparr>,
             \<lparr>payee = Some ''protocol'', token = 1, payout_amount = 0\<rparr>])"
  by (simp add: collect_fees_def example_pool_def below_threshold_def token_below_def
        REQUIRED_MIN_COLLECT_FEES_def Let_def)

theorem collect_fees_twice_witness:
  "collect_fees Combined ''keeper'' True (example_pool 500000 600000)
     = Inr (example_pool 0 0,
            [\<lparr>payee = Some ''keeper'', token = 0, payout_amount = 1100\<rparr>,
             \<lparr>payee = Some ''provider'', token = 0, payout_amount = 500000\<rparr>,
             \<lparr>payee = Some ''protocol'', token = 0, payout_amount = 598900\<rparr>,
             \<lparr>payee = Some ''keeper'', token = 1, payout_amount = 0\<rparr>,
             \<lparr>payee = Some ''provider'', token = 1, payout_amount = 0\<rparr>,
             \<lparr>payee = Some ''protocol'', token = 1, payout_amount = 0\<rparr>])
   \<and> collect_fees Combined ''keeper'' False (example_pool 0 0) = Inr (example_pool 0 0, [])
   \<and> collectedFees0_provider (example_pool 0 0) = 0
   \<and> collectedFees0_protocol (example_pool 0 0) = 0"
proof -
  note first = collect_fees_example
  from collect_fees_twice [OF first, of "''keeper''" False]
  have "collect_fees Combined ''keeper'' False (example_pool 0 0) = Inr (example_pool 0 0, [])
        \<and> collectedFees0_provider (example_pool 0 0) = 0
        \<and> collectedFees0_protocol (example_pool 0 0) = 0"
    by simp
  with first show ?thesis by simp
qed

end
